theory Spec2Isabelle
  imports Complex_Main
begin

section \<open>The trading framework of \<^verbatim>\<open>src/main.py\<close>\<close>

text \<open>
  The program is one asynchronous Python script: two strategies
  (\<^verbatim>\<open>VolatilityBreakoutStrategy\<close>, \<^verbatim>\<open>RSIStrategy\<close>), a notifier, a CSV recorder and
  the class \<^verbatim>\<open>TradingBot\<close> with \<^verbatim>\<open>initialize\<close>, \<^verbatim>\<open>sell_position\<close>,
  \<^verbatim>\<open>buy_position\<close>, \<^verbatim>\<open>run\<close> and \<^verbatim>\<open>close\<close>.

  Embedding. Every method becomes a function that takes the state of the bot and returns
  the new one. What lies outside the script (the ccxt exchange, the clock, the Telegram
  HTTP request, the file system, the pandas-ta indicator) is a record of functions over an
  arbitrary world state \<open>'w\<close>: each call may fail (\<open>Inl\<close> an exception) and moves
  the world on. Python numbers are exact rationals here; \<^verbatim>\<open>None\<close> is \<open>None\<close>.
  Every \<^verbatim>\<open>try\<close>/\<^verbatim>\<open>except Exception\<close> of the source is a case distinction on the
  result of the call that can raise, the handler being the \<open>Inl\<close> branch.
\<close>

subsection \<open>Values\<close>

datatype signal = BUY | SELL | HOLD

datatype exc =
    ExchangeError string
  | RequestException string
  | OSError string
  | TypeError
  | ZeroDivisionError
  | ValueError

record datetime =
  year :: nat
  month :: nat
  day :: nat
  hour :: nat
  minute :: nat
  second :: nat

text \<open>A ccxt ticker: only \<^verbatim>\<open>ticker['last']\<close> is read, and ccxt may report it as None.\<close>

record ticker =
  last_price :: "rat option"

text \<open>One OHLCV row: (timestamp, open, high, low, close, volume).\<close>

type_synonym candle = "rat \<times> rat \<times> rat \<times> rat \<times> rat \<times> rat"

text \<open>
  A ccxt order. \<^verbatim>\<open>order.get('average')\<close> and \<^verbatim>\<open>order.get('price')\<close> give None for a
  missing key and for a stored None alike. For \<^verbatim>\<open>order.get('filled', amount)\<close> the two
  differ: \<open>filled = None\<close> is the missing key, \<open>Some None\<close> a stored None.
\<close>

record order =
  average :: "rat option"
  price :: "rat option"
  filled :: "rat option option"

text \<open>
  \<^verbatim>\<open>self.position\<close> is \<^verbatim>\<open>{}\<close> (here \<open>None\<close>) or the dict that \<^verbatim>\<open>buy_position\<close>
  stores, with the keys entry\_price, amount and timestamp. The stored amount may be None.
\<close>

record position_dict =
  entry_price :: rat
  amount :: "rat option"
  timestamp :: datetime

record trade_details =
  td_entry_time :: datetime
  td_exit_time :: datetime
  td_symbol :: string
  td_entry_price :: rat
  td_exit_price :: rat
  td_amount :: rat
  td_profit_krw :: rat
  td_profit_percent :: rat

text \<open>
  The two reasons \<^verbatim>\<open>run\<close> passes to \<^verbatim>\<open>sell_position\<close>. The source writes them in
  Korean: the literal of the reset branch reads "regular sell" (the spec's
  "scheduled-reset"), the one of the signal branch "strategy sell signal" (the spec's
  "strategy-signal").
\<close>

datatype sell_reason = Scheduled_Sell | Strategy_Sell_Signal

text \<open>The texts handed to \<^verbatim>\<open>NotificationManager.send_message\<close>, by their content.\<close>

datatype message =
    Msg_Bot_Started string string
  | Msg_Start_Failed exc
  | Msg_Sold sell_reason string rat rat
  | Msg_Sell_Failed exc
  | Msg_Bought string rat rat
  | Msg_Buy_Failed exc
  | Msg_Loop_Error exc
  | Msg_Bot_Closed

datatype level = INFO | WARNING | ERROR

text \<open>The lines written through \<^verbatim>\<open>logging\<close>, by their content.\<close>

datatype log_msg =
    Log_Telegram_Sent
  | Log_Telegram_Failed exc
  | Log_Trade_Recorded string
  | Log_Trade_Record_Failed exc
  | Log_Not_Enough_Data
  | Log_New_Target rat
  | Log_Target_Failed exc
  | Log_Breakout_Buy_Signal rat rat
  | Log_Breakout_Signal_Failed exc
  | Log_Breakout_Reset
  | Log_RSI_Failed
  | Log_RSI_Value rat "rat option"
  | Log_RSI_Buy_Signal "rat option" rat
  | Log_RSI_Sell_Signal "rat option" rat
  | Log_RSI_Signal_Failed exc
  | Log_Markets_Loaded
  | Log_Markets_Failed exc
  | Log_No_Position_To_Sell
  | Log_Unknown_Amount
  | Log_Sell_Attempt sell_reason
  | Log_Sell_Failed exc
  | Log_Already_Holding
  | Log_Buy_Attempt rat
  | Log_Buy_Failed exc
  | Log_Reset_Time datetime
  | Log_Separator
  | Log_Connection_Closed

text \<open>
  The calls that leave the bot, in the order they are made: to the Exchange Gateway, to the
  Trade Recorder (\<^verbatim>\<open>perf_logger.log_trade\<close>), to the Notifier (\<^verbatim>\<open>notifier.send_message\<close>)
  and to the methods of the strategy object. The list is a history of the run: the source
  has no such variable.
\<close>

datatype event =
    Load_Markets
  | Fetch_Ticker string
  | Fetch_OHLCV string string nat
  | Create_Market_Buy_Order string rat
  | Create_Market_Sell_Order string rat
  | Exchange_Close
  | Log_Trade trade_details
  | Send_Message message
  | Strategy_Get_Signal
  | Strategy_Reset
  | Strategy_Prepare_Data

subsection \<open>The outside world\<close>

text \<open>
  \<open>ta_rsi\<close> is \<^verbatim>\<open>df.ta.rsi(length=...)\<close> of pandas-ta on the frame built from the rows:
  it raises, returns None, or returns a series whose entries may be NaN (\<open>None\<close>).
\<close>

record 'w env =
  load_markets :: "'w \<Rightarrow> (exc + unit) \<times> 'w"
  fetch_ticker :: "string \<Rightarrow> 'w \<Rightarrow> (exc + ticker) \<times> 'w"
  fetch_ohlcv :: "string \<Rightarrow> string \<Rightarrow> nat \<Rightarrow> 'w \<Rightarrow> (exc + candle list) \<times> 'w"
  create_market_buy_order :: "string \<Rightarrow> rat \<Rightarrow> 'w \<Rightarrow> (exc + order) \<times> 'w"
  create_market_sell_order :: "string \<Rightarrow> rat \<Rightarrow> 'w \<Rightarrow> (exc + order) \<times> 'w"
  exchange_close :: "'w \<Rightarrow> (exc + unit) \<times> 'w"
  datetime_now :: "'w \<Rightarrow> datetime \<times> 'w"
  asyncio_sleep :: "nat \<Rightarrow> 'w \<Rightarrow> 'w"
  requests_get :: "message \<Rightarrow> 'w \<Rightarrow> (exc + unit) \<times> 'w"
  file_append :: "trade_details \<Rightarrow> 'w \<Rightarrow> (exc + unit) \<times> 'w"
  ta_rsi :: "rat \<Rightarrow> candle list \<Rightarrow> exc + rat option list option"

subsection \<open>The state\<close>

record vb_state =
  vb_params :: "string \<rightharpoonup> rat"
  target_price :: "rat option"
  bought :: bool

datatype strategy_obj =
    VolatilityBreakoutStrategy vb_state
  | RSIStrategy "string \<rightharpoonup> rat"

record 'w bot =
  world :: 'w
  history :: "event list"
  logs :: "(level \<times> log_msg) list"
  token :: "string option"
  chat_id :: "string option"
  symbol :: string
  budget :: rat
  bot_position :: "position_dict option"
  strategy :: strategy_obj

subsection \<open>Configuration constants\<close>

definition EXCHANGE_NAME :: string where
  "EXCHANGE_NAME = ''upbit''"

definition TARGET_SYMBOL :: string where
  "TARGET_SYMBOL = ''BTC/KRW''"

definition TRADE_BUDGET_KRW :: rat where
  "TRADE_BUDGET_KRW = 5000"

definition MARKET_RESET_HOUR :: nat where
  "MARKET_RESET_HOUR = 9"


subsection \<open>Python helpers\<close>

text \<open>\<^verbatim>\<open>d.get(k, default)\<close>\<close>

definition dict_get :: "('k \<rightharpoonup> 'v) \<Rightarrow> 'k \<Rightarrow> 'v \<Rightarrow> 'v" where
  "dict_get d k dflt = (case d k of None \<Rightarrow> dflt | Some v \<Rightarrow> v)"

text \<open>Truth value of a number or None: None and zero are false.\<close>

definition truthy :: "rat option \<Rightarrow> bool" where
  "truthy x = (case x of None \<Rightarrow> False | Some v \<Rightarrow> v \<noteq> 0)"

text \<open>\<^verbatim>\<open>a or b\<close>\<close>

definition py_or :: "rat option \<Rightarrow> rat option \<Rightarrow> rat option" where
  "py_or a b = (if truthy a then a else b)"

text \<open>Truth value of a string or None, as in \<^verbatim>\<open>if not self.token\<close>.\<close>

definition str_truthy :: "string option \<Rightarrow> bool" where
  "str_truthy x = (case x of None \<Rightarrow> False | Some v \<Rightarrow> v \<noteq> [])"

text \<open>
  \<^verbatim>\<open>round(x, 2)\<close>: to the nearest multiple of 1/100, a tie going to the even one.
\<close>

definition round_half_even :: "rat \<Rightarrow> int" where
  "round_half_even x =
     (let f = \<lfloor>x\<rfloor>; d = x - of_int f
      in if d < 1 / 2 then f
         else if 1 / 2 < d then f + 1
         else if even f then f else f + 1)"

definition py_round2 :: "rat \<Rightarrow> rat" where
  "py_round2 x = of_int (round_half_even (x * 100)) / 100"

text \<open>Comparisons with a value that may be NaN: every comparison with NaN is false.\<close>

definition nan_less :: "rat option \<Rightarrow> rat \<Rightarrow> bool" where
  "nan_less x t = (case x of None \<Rightarrow> False | Some v \<Rightarrow> v < t)"

definition nan_greater :: "rat option \<Rightarrow> rat \<Rightarrow> bool" where
  "nan_greater x t = (case x of None \<Rightarrow> False | Some v \<Rightarrow> t < v)"

subsection \<open>Logging and the calls to the outside\<close>

definition log_at :: "level \<Rightarrow> log_msg \<Rightarrow> 'w bot \<Rightarrow> 'w bot" where
  "log_at l m s = s\<lparr>logs := logs s @ [(l, m)]\<rparr>"

definition called :: "event \<Rightarrow> 'w \<Rightarrow> 'w bot \<Rightarrow> 'w bot" where
  "called ev w s = s\<lparr>world := w, history := history s @ [ev]\<rparr>"

definition call_load_markets :: "'w env \<Rightarrow> 'w bot \<Rightarrow> (exc + unit) \<times> 'w bot" where
  "call_load_markets G s =
     (case load_markets G (world s) of (r, w) \<Rightarrow> (r, called Load_Markets w s))"

definition call_fetch_ticker :: "'w env \<Rightarrow> 'w bot \<Rightarrow> (exc + ticker) \<times> 'w bot" where
  "call_fetch_ticker G s =
     (case fetch_ticker G (symbol s) (world s) of
        (r, w) \<Rightarrow> (r, called (Fetch_Ticker (symbol s)) w s))"

definition call_fetch_ohlcv ::
  "'w env \<Rightarrow> string \<Rightarrow> nat \<Rightarrow> 'w bot \<Rightarrow> (exc + candle list) \<times> 'w bot" where
  "call_fetch_ohlcv G timeframe limit s =
     (case fetch_ohlcv G (symbol s) timeframe limit (world s) of
        (r, w) \<Rightarrow> (r, called (Fetch_OHLCV (symbol s) timeframe limit) w s))"

definition call_create_market_buy_order ::
  "'w env \<Rightarrow> rat \<Rightarrow> 'w bot \<Rightarrow> (exc + order) \<times> 'w bot" where
  "call_create_market_buy_order G a s =
     (case create_market_buy_order G (symbol s) a (world s) of
        (r, w) \<Rightarrow> (r, called (Create_Market_Buy_Order (symbol s) a) w s))"

definition call_create_market_sell_order ::
  "'w env \<Rightarrow> rat \<Rightarrow> 'w bot \<Rightarrow> (exc + order) \<times> 'w bot" where
  "call_create_market_sell_order G a s =
     (case create_market_sell_order G (symbol s) a (world s) of
        (r, w) \<Rightarrow> (r, called (Create_Market_Sell_Order (symbol s) a) w s))"

definition call_exchange_close :: "'w env \<Rightarrow> 'w bot \<Rightarrow> (exc + unit) \<times> 'w bot" where
  "call_exchange_close G s =
     (case exchange_close G (world s) of (r, w) \<Rightarrow> (r, called Exchange_Close w s))"

definition call_now :: "'w env \<Rightarrow> 'w bot \<Rightarrow> datetime \<times> 'w bot" where
  "call_now G s = (case datetime_now G (world s) of (t, w) \<Rightarrow> (t, s\<lparr>world := w\<rparr>))"

definition call_sleep :: "'w env \<Rightarrow> nat \<Rightarrow> 'w bot \<Rightarrow> 'w bot" where
  "call_sleep G d s = s\<lparr>world := asyncio_sleep G d (world s)\<rparr>"

subsection \<open>NotificationManager and PerformanceLogger\<close>

text \<open>
  \<^verbatim>\<open>send_message\<close>: nothing is sent without a token and a chat id; a failed request is
  logged and swallowed. The call itself is entered in the history in either case.
\<close>

definition send_message :: "'w env \<Rightarrow> message \<Rightarrow> 'w bot \<Rightarrow> 'w bot" where
  "send_message G m s =
     (let s1 = s\<lparr>history := history s @ [Send_Message m]\<rparr>
      in if \<not> str_truthy (token s1) \<or> \<not> str_truthy (chat_id s1) then s1
         else (case requests_get G m (world s1) of
                 (Inr u, w) \<Rightarrow> log_at INFO Log_Telegram_Sent (s1\<lparr>world := w\<rparr>)
               | (Inl e, w) \<Rightarrow> log_at ERROR (Log_Telegram_Failed e) (s1\<lparr>world := w\<rparr>)))"

text \<open>
  \<^verbatim>\<open>log_trade\<close>: appends one row to the CSV file; a failed write is logged and swallowed.
\<close>

definition log_trade :: "'w env \<Rightarrow> trade_details \<Rightarrow> 'w bot \<Rightarrow> 'w bot" where
  "log_trade G d s =
     (let s1 = s\<lparr>history := history s @ [Log_Trade d]\<rparr>
      in case file_append G d (world s1) of
           (Inr u, w) \<Rightarrow> log_at INFO (Log_Trade_Recorded (td_symbol d)) (s1\<lparr>world := w\<rparr>)
         | (Inl e, w) \<Rightarrow> log_at ERROR (Log_Trade_Record_Failed e) (s1\<lparr>world := w\<rparr>))"

subsection \<open>VolatilityBreakoutStrategy\<close>

definition vb_default_params :: "string \<rightharpoonup> rat" where
  "vb_default_params = [''k_value'' \<mapsto> 1 / 2]"

definition vb_init :: "(string \<rightharpoonup> rat) \<Rightarrow> vb_state" where
  "vb_init p = \<lparr>vb_params = p, target_price = None, bought = False\<rparr>"

definition candle_open :: "candle \<Rightarrow> rat" where
  "candle_open c = (case c of (ts, op, hi, lo, cl, vol) \<Rightarrow> op)"

definition candle_high :: "candle \<Rightarrow> rat" where
  "candle_high c = (case c of (ts, op, hi, lo, cl, vol) \<Rightarrow> hi)"

definition candle_low :: "candle \<Rightarrow> rat" where
  "candle_low c = (case c of (ts, op, hi, lo, cl, vol) \<Rightarrow> lo)"

definition prepare_data :: "'w env \<Rightarrow> vb_state \<Rightarrow> 'w bot \<Rightarrow> vb_state \<times> 'w bot" where
  "prepare_data G v s =
     (case call_fetch_ohlcv G ''1d'' 2 s of
        (Inl e, s1) \<Rightarrow> (v\<lparr>target_price := None\<rparr>, log_at ERROR (Log_Target_Failed e) s1)
      | (Inr ohlcv, s1) \<Rightarrow>
          if length ohlcv < 2
          then (v\<lparr>target_price := None\<rparr>, log_at WARNING Log_Not_Enough_Data s1)
          else
            let yesterday = ohlcv ! (length ohlcv - 2);
                high = candle_high yesterday;
                low = candle_low yesterday;
                today_open = candle_open (ohlcv ! (length ohlcv - 1));
                volatility = high - low;
                target = today_open + volatility * dict_get (vb_params v) ''k_value'' (1 / 2)
            in (v\<lparr>target_price := Some target\<rparr>, log_at INFO (Log_New_Target target) s1))"

text \<open>
  \<^verbatim>\<open>get_signal\<close> of the breakout strategy. A ticker whose last price is None makes the
  comparison raise TypeError, which the handler logs.
\<close>

definition vb_get_signal :: "'w env \<Rightarrow> vb_state \<Rightarrow> 'w bot \<Rightarrow> signal \<times> vb_state \<times> 'w bot" where
  "vb_get_signal G v s =
     (case target_price v of
        None \<Rightarrow> (HOLD, v, s)
      | Some target \<Rightarrow>
          if bought v then (HOLD, v, s)
          else
            (case call_fetch_ticker G s of
               (Inl e, s1) \<Rightarrow> (HOLD, v, log_at ERROR (Log_Breakout_Signal_Failed e) s1)
             | (Inr tk, s1) \<Rightarrow>
                 (case last_price tk of
                    None \<Rightarrow> (HOLD, v, log_at ERROR (Log_Breakout_Signal_Failed TypeError) s1)
                  | Some current_price \<Rightarrow>
                      if target < current_price
                      then (BUY, v\<lparr>bought := True\<rparr>,
                            log_at INFO (Log_Breakout_Buy_Signal current_price target) s1)
                      else (HOLD, v, s1))))"

definition vb_reset :: "vb_state \<Rightarrow> 'w bot \<Rightarrow> vb_state \<times> 'w bot" where
  "vb_reset v s =
     (v\<lparr>bought := False, target_price := None\<rparr>, log_at INFO Log_Breakout_Reset s)"

subsection \<open>RSIStrategy\<close>

definition rsi_default_params :: "string \<rightharpoonup> rat" where
  "rsi_default_params = [''rsi_period'' \<mapsto> 14, ''oversold'' \<mapsto> 30, ''overbought'' \<mapsto> 70]"

definition rsi_get_signal :: "'w env \<Rightarrow> (string \<rightharpoonup> rat) \<Rightarrow> 'w bot \<Rightarrow> signal \<times> 'w bot" where
  "rsi_get_signal G p s =
     (case call_fetch_ohlcv G ''1h'' 100 s of
        (Inl e, s1) \<Rightarrow> (HOLD, log_at ERROR (Log_RSI_Signal_Failed e) s1)
      | (Inr ohlcv, s1) \<Rightarrow>
          let rsi_period = dict_get p ''rsi_period'' 14
          in (case ta_rsi G rsi_period ohlcv of
                Inl e \<Rightarrow> (HOLD, log_at ERROR (Log_RSI_Signal_Failed e) s1)
              | Inr None \<Rightarrow> (HOLD, log_at WARNING Log_RSI_Failed s1)
              | Inr (Some rsi) \<Rightarrow>
                  if rsi = [] then (HOLD, log_at WARNING Log_RSI_Failed s1)
                  else
                    let last_rsi = last rsi;
                        oversold_threshold = dict_get p ''oversold'' 30;
                        overbought_threshold = dict_get p ''overbought'' 70;
                        s2 = log_at INFO (Log_RSI_Value rsi_period last_rsi) s1
                    in if nan_less last_rsi oversold_threshold
                       then (BUY, log_at INFO (Log_RSI_Buy_Signal last_rsi oversold_threshold) s2)
                       else if nan_greater last_rsi overbought_threshold
                       then (SELL, log_at INFO (Log_RSI_Sell_Signal last_rsi overbought_threshold) s2)
                       else (HOLD, s2)))"

subsection \<open>TradingBot\<close>

text \<open>
  \<^verbatim>\<open>_create_strategy_instance\<close>: both strategies are built with their default parameters;
  any other name raises ValueError.
\<close>

definition create_strategy_instance :: "string \<Rightarrow> exc + strategy_obj" where
  "create_strategy_instance strategy_name =
     (if strategy_name = ''VolatilityBreakout''
      then Inr (VolatilityBreakoutStrategy (vb_init vb_default_params))
      else if strategy_name = ''RSI'' then Inr (RSIStrategy rsi_default_params)
      else Inl ValueError)"

text \<open>
  \<^verbatim>\<open>TradingBot.__init__\<close>: the position starts as the empty dict. The API keys and the
  Telegram settings are read from the environment; a missing API key raises ValueError.
  (The header line that \<^verbatim>\<open>PerformanceLogger.__init__\<close> writes into a new CSV file is
  left to the file system of the world.)
\<close>

definition trading_bot_init ::
  "'w \<Rightarrow> string option \<Rightarrow> string option \<Rightarrow> string option \<Rightarrow> string option \<Rightarrow>
   string \<Rightarrow> rat \<Rightarrow> string \<Rightarrow> exc + 'w bot" where
  "trading_bot_init w api_key secret_key tg_token tg_chat symbol_name budget_krw strategy_name =
     (if \<not> str_truthy api_key \<or> \<not> str_truthy secret_key then Inl ValueError
      else (case create_strategy_instance strategy_name of
              Inl e \<Rightarrow> Inl e
            | Inr st \<Rightarrow>
                Inr \<lparr>world = w, history = [], logs = [], token = tg_token, chat_id = tg_chat,
                     symbol = symbol_name, budget = budget_krw, bot_position = None, strategy = st\<rparr>))"



text \<open>The handler of \<^verbatim>\<open>sell_position\<close>: log the error, notify, leave the position.\<close>

definition sell_failed :: "'w env \<Rightarrow> exc \<Rightarrow> 'w bot \<Rightarrow> 'w bot" where
  "sell_failed G e s = send_message G (Msg_Sell_Failed e) (log_at ERROR (Log_Sell_Failed e) s)"

text \<open>
  The exit price: \<^verbatim>\<open>order.get('average') or order.get('price')\<close>, and the last price of a
  fresh ticker when that is None or zero. The result may still be None (a ticker without a
  last price).
\<close>

definition exit_price_of :: "'w env \<Rightarrow> order \<Rightarrow> 'w bot \<Rightarrow> (exc + rat option) \<times> 'w bot" where
  "exit_price_of G ord s =
     (let exit_price = py_or (average ord) (price ord)
      in if truthy exit_price then (Inr exit_price, s)
         else (case call_fetch_ticker G s of
                 (Inl e, s1) \<Rightarrow> (Inl e, s1)
               | (Inr tk, s1) \<Rightarrow> (Inr (last_price tk), s1)))"

text \<open>
  \<^verbatim>\<open>sell_position\<close>. The two guards return before the \<^verbatim>\<open>try\<close> block does anything. Inside
  it, the subtraction raises TypeError on an exit price None and the division raises
  ZeroDivisionError on a budget 0. Clearing the position is the last statement.
\<close>

definition sell_position :: "'w env \<Rightarrow> sell_reason \<Rightarrow> 'w bot \<Rightarrow> 'w bot" where
  "sell_position G reason s =
     (case bot_position s of
        None \<Rightarrow> log_at INFO Log_No_Position_To_Sell s
      | Some pos \<Rightarrow>
          (case amount pos of
             None \<Rightarrow> log_at WARNING Log_Unknown_Amount s
           | Some amount_to_sell \<Rightarrow>
               if amount_to_sell = 0 then log_at WARNING Log_Unknown_Amount s
               else
                 (case call_create_market_sell_order G amount_to_sell
                         (log_at INFO (Log_Sell_Attempt reason) s) of
                    (Inl e, s1) \<Rightarrow> sell_failed G e s1
                  | (Inr ord, s1) \<Rightarrow>
                      (case exit_price_of G ord s1 of
                         (Inl e, s2) \<Rightarrow> sell_failed G e s2
                       | (Inr None, s2) \<Rightarrow> sell_failed G TypeError s2
                       | (Inr (Some exit_price), s2) \<Rightarrow>
                           if budget s2 = 0 then sell_failed G ZeroDivisionError s2
                           else
                             (let profit_krw = (exit_price - entry_price pos) * amount_to_sell;
                                  profit_percent = profit_krw / budget s2 * 100
                              in case call_now G s2 of
                                   (now, s3) \<Rightarrow>
                                     (let details =
                                            \<lparr>td_entry_time = timestamp pos,
                                             td_exit_time = now,
                                             td_symbol = symbol s3,
                                             td_entry_price = entry_price pos,
                                             td_exit_price = exit_price,
                                             td_amount = amount_to_sell,
                                             td_profit_krw = py_round2 profit_krw,
                                             td_profit_percent = py_round2 profit_percent\<rparr>;
                                          s4 = log_trade G details s3;
                                          s5 = send_message G
                                                 (Msg_Sold reason (symbol s4) profit_krw profit_percent) s4
                                      in s5\<lparr>bot_position := None\<rparr>))))))"

text \<open>The handler of \<^verbatim>\<open>buy_position\<close>.\<close>

definition buy_failed :: "'w env \<Rightarrow> exc \<Rightarrow> 'w bot \<Rightarrow> 'w bot" where
  "buy_failed G e s = send_message G (Msg_Buy_Failed e) (log_at ERROR (Log_Buy_Failed e) s)"

text \<open>
  \<^verbatim>\<open>buy_position\<close>. A last price None raises TypeError and a last price 0 raises
  ZeroDivisionError in the computation of the amount. The position is stored before the
  message is formatted; formatting an amount None with \<^verbatim>\<open>:.6f\<close> raises TypeError, which
  the handler reports while the position stays stored.
\<close>

definition buy_position :: "'w env \<Rightarrow> 'w bot \<Rightarrow> 'w bot" where
  "buy_position G s =
     (if bot_position s \<noteq> None then log_at INFO Log_Already_Holding s
      else
        (case call_fetch_ticker G (log_at INFO (Log_Buy_Attempt (budget s)) s) of
           (Inl e, s1) \<Rightarrow> buy_failed G e s1
         | (Inr tk, s1) \<Rightarrow>
             (case last_price tk of
                None \<Rightarrow> buy_failed G TypeError s1
              | Some current_price \<Rightarrow>
                  if current_price = 0 then buy_failed G ZeroDivisionError s1
                  else
                    (let amt = (budget s1 * (9995 / 10000)) / current_price
                     in case call_create_market_buy_order G amt s1 of
                          (Inl e, s2) \<Rightarrow> buy_failed G e s2
                        | (Inr ord, s2) \<Rightarrow>
                            (let p = py_or (average ord) (price ord);
                                 entry = (case p of
                                            None \<Rightarrow> current_price
                                          | Some v \<Rightarrow> if v = 0 then current_price else v);
                                 stored = (case filled ord of None \<Rightarrow> Some amt | Some f \<Rightarrow> f)
                             in case call_now G s2 of
                                  (now, s3) \<Rightarrow>
                                    (let s4 = s3\<lparr>bot_position :=
                                                  Some \<lparr>entry_price = entry, amount = stored,
                                                        timestamp = now\<rparr>\<rparr>
                                     in case stored of
                                          None \<Rightarrow> buy_failed G TypeError s4
                                        | Some a \<Rightarrow>
                                            send_message G (Msg_Bought (symbol s4) entry a) s4))))))"

subsection \<open>The control loop\<close>

text \<open>The method calls on the strategy object, entered in the history.\<close>

definition get_signal :: "'w env \<Rightarrow> 'w bot \<Rightarrow> signal \<times> 'w bot" where
  "get_signal G s =
     (let s0 = s\<lparr>history := history s @ [Strategy_Get_Signal]\<rparr>
      in case strategy s0 of
           VolatilityBreakoutStrategy v \<Rightarrow>
             (case vb_get_signal G v s0 of
                (sig, v', s1) \<Rightarrow> (sig, s1\<lparr>strategy := VolatilityBreakoutStrategy v'\<rparr>))
         | RSIStrategy p \<Rightarrow> rsi_get_signal G p s0)"

text \<open>\<^verbatim>\<open>hasattr(self.strategy, 'reset')\<close> and \<^verbatim>\<open>hasattr(self.strategy, 'prepare_data')\<close>\<close>

definition has_reset :: "strategy_obj \<Rightarrow> bool" where
  "has_reset st = (case st of VolatilityBreakoutStrategy v \<Rightarrow> True | RSIStrategy p \<Rightarrow> False)"

definition has_prepare_data :: "strategy_obj \<Rightarrow> bool" where
  "has_prepare_data st =
     (case st of VolatilityBreakoutStrategy v \<Rightarrow> True | RSIStrategy p \<Rightarrow> False)"

definition is_rsi :: "strategy_obj \<Rightarrow> bool" where
  "is_rsi st = (case st of VolatilityBreakoutStrategy v \<Rightarrow> False | RSIStrategy p \<Rightarrow> True)"


text \<open>
  \<^verbatim>\<open>self.strategy.reset()\<close> and \<^verbatim>\<open>self.strategy.prepare_data()\<close>; the loop calls them
  only on a strategy that has the method, so the other branch is never taken.
\<close>

definition strategy_reset :: "'w bot \<Rightarrow> 'w bot" where
  "strategy_reset s =
     (case strategy s of
        VolatilityBreakoutStrategy v \<Rightarrow>
          (case vb_reset v (s\<lparr>history := history s @ [Strategy_Reset]\<rparr>) of
             (v', s1) \<Rightarrow> s1\<lparr>strategy := VolatilityBreakoutStrategy v'\<rparr>)
      | RSIStrategy p \<Rightarrow> s)"

definition strategy_prepare_data :: "'w env \<Rightarrow> 'w bot \<Rightarrow> 'w bot" where
  "strategy_prepare_data G s =
     (case strategy s of
        VolatilityBreakoutStrategy v \<Rightarrow>
          (case prepare_data G v (s\<lparr>history := history s @ [Strategy_Prepare_Data]\<rparr>) of
             (v', s1) \<Rightarrow> s1\<lparr>strategy := VolatilityBreakoutStrategy v'\<rparr>)
      | RSIStrategy p \<Rightarrow> s)"

definition in_reset_window :: "datetime \<Rightarrow> bool" where
  "in_reset_window now = (hour now = MARKET_RESET_HOUR \<and> minute now = 0 \<and> second now < 10)"

text \<open>
  One pass through the body of \<^verbatim>\<open>while True\<close> in \<^verbatim>\<open>run\<close>. In the model neither
  \<^verbatim>\<open>get_signal\<close> nor \<^verbatim>\<open>buy_position\<close> nor \<^verbatim>\<open>sell_position\<close> lets an exception out
  (each catches \<^verbatim>\<open>Exception\<close> around all it does), so the \<^verbatim>\<open>except\<close> of the loop has
  no branch here.
\<close>

definition tick :: "'w env \<Rightarrow> 'w bot \<Rightarrow> 'w bot" where
  "tick G s =
     (case call_now G s of
        (now, s0) \<Rightarrow>
          if in_reset_window now
          then
            (let s1 = sell_position G Scheduled_Sell (log_at INFO (Log_Reset_Time now) s0);
                 s2 = (if has_reset (strategy s1) then strategy_reset s1 else s1);
                 s3 = (if has_prepare_data (strategy s2) then strategy_prepare_data G s2 else s2)
             in call_sleep G 60 (log_at INFO Log_Separator s3))
          else
            (case get_signal G s0 of
               (sig, s1) \<Rightarrow>
                 (let s2 = (if sig = BUY \<and> bot_position s1 = None then buy_position G s1
                            else if sig = SELL \<and> bot_position s1 \<noteq> None
                            then sell_position G Strategy_Sell_Signal s1
                            else s1)
                  in call_sleep G (if is_rsi (strategy s2) then 5 else 2) s2)))"

text \<open>The loop never ends; \<open>run_loop G n\<close> is its first \<open>n\<close> passes.\<close>

fun run_loop :: "'w env \<Rightarrow> nat \<Rightarrow> 'w bot \<Rightarrow> 'w bot" where
  "run_loop G 0 s = s"
| "run_loop G (Suc n) s = run_loop G n (tick G s)"




subsection \<open>Observations on a run\<close>

text \<open>The number of open positions the bot tracks: \<^verbatim>\<open>self.position\<close> is one dict.\<close>

definition open_positions :: "'w bot \<Rightarrow> nat" where
  "open_positions s = (case bot_position s of None \<Rightarrow> 0 | Some p \<Rightarrow> 1)"

fun is_buy_order :: "event \<Rightarrow> bool" where
  "is_buy_order (Create_Market_Buy_Order sy a) = True"
| "is_buy_order ev = False"

fun is_order_or_record :: "event \<Rightarrow> bool" where
  "is_order_or_record (Create_Market_Buy_Order sy a) = True"
| "is_order_or_record (Create_Market_Sell_Order sy a) = True"
| "is_order_or_record (Log_Trade d) = True"
| "is_order_or_record ev = False"

text \<open>The trade records handed to \<^verbatim>\<open>log_trade\<close>, oldest first.\<close>

fun trade_records :: "event list \<Rightarrow> trade_details list" where
  "trade_records [] = []"
| "trade_records (Log_Trade d # evs) = d # trade_records evs"
| "trade_records (ev # evs) = trade_records evs"


text \<open>
  \<open>n\<close> evaluations of \<^verbatim>\<open>get_signal\<close> of the breakout strategy one after the other, as
  the loop (or a test over a price feed) makes them: the signals in order, and the state
  after the last one.
\<close>

fun vb_poll :: "'w env \<Rightarrow> nat \<Rightarrow> vb_state \<Rightarrow> 'w bot \<Rightarrow> signal list \<times> vb_state \<times> 'w bot" where
  "vb_poll G 0 v s = ([], v, s)"
| "vb_poll G (Suc n) v s =
     (case vb_get_signal G v s of
        (sig, v1, s1) \<Rightarrow>
          (case vb_poll G n v1 s1 of (sigs, v2, s2) \<Rightarrow> (sig # sigs, v2, s2)))"

subsection \<open>Concrete inputs\<close>

text \<open>
  A scripted world for evaluating the functions: the world state is the list of last
  prices the ticker will still report (an exhausted list is a failed request); the clock,
  the answer of \<^verbatim>\<open>load_markets\<close>, the answer to every order and the daily candles are
  fixed.
\<close>

definition scripted_env ::
  "datetime \<Rightarrow> (exc + unit) \<Rightarrow> (exc + order) \<Rightarrow> candle list \<Rightarrow> (rat list) env" where
  "scripted_env now markets answer rows =
     \<lparr>load_markets = (\<lambda>w. (markets, w)),
      fetch_ticker = (\<lambda>sy w. case w of
                               [] \<Rightarrow> (Inl (ExchangeError ''timeout''), [])
                             | p # ps \<Rightarrow> (Inr \<lparr>last_price = Some p\<rparr>, ps)),
      fetch_ohlcv = (\<lambda>sy tf k w. (Inr rows, w)),
      create_market_buy_order = (\<lambda>sy a w. (answer, w)),
      create_market_sell_order = (\<lambda>sy a w. (answer, w)),
      exchange_close = (\<lambda>w. (Inr (), w)),
      datetime_now = (\<lambda>w. (now, w)),
      asyncio_sleep = (\<lambda>d w. w),
      requests_get = (\<lambda>m w. (Inr (), w)),
      file_append = (\<lambda>d w. (Inr (), w)),
      ta_rsi = (\<lambda>k rs. Inr None)\<rparr>"

definition trading_time :: datetime where
  "trading_time = \<lparr>year = 2024, month = 5, day = 17, hour = 14, minute = 30, second = 12\<rparr>"

definition reset_time :: datetime where
  "reset_time = \<lparr>year = 2024, month = 5, day = 18, hour = 9, minute = 0, second = 4\<rparr>"

definition sample_bot ::
  "rat list \<Rightarrow> rat \<Rightarrow> position_dict option \<Rightarrow> strategy_obj \<Rightarrow> (rat list) bot" where
  "sample_bot feed bud pos st =
     \<lparr>world = feed, history = [], logs = [], token = None, chat_id = None,
      symbol = TARGET_SYMBOL, budget = bud, bot_position = pos, strategy = st\<rparr>"

definition sample_position :: "rat \<Rightarrow> rat option \<Rightarrow> position_dict" where
  "sample_position e q = \<lparr>entry_price = e, amount = q, timestamp = trading_time\<rparr>"

definition filled_order :: "rat option \<Rightarrow> order" where
  "filled_order avg = \<lparr>average = avg, price = None, filled = None\<rparr>"


definition answering :: "rat option \<Rightarrow> (rat list) env" where
  "answering avg = scripted_env trading_time (Inr ()) (Inr (filled_order avg)) []"

text \<open>A breakout strategy with default parameters whose target is \<open>t\<close>.\<close>

definition armed :: "rat \<Rightarrow> vb_state" where
  "armed t = (vb_init vb_default_params)\<lparr>target_price := Some t\<rparr>"

text \<open>A world whose indicator library answers every request with the given series.\<close>

definition rsi_reporting :: "rat option list option \<Rightarrow> (rat list) env" where
  "rsi_reporting series = (answering None)\<lparr>ta_rsi := (\<lambda>k rs. Inr series)\<rparr>"

text \<open>An order answer that reports an average price and a fill of None.\<close>

definition unfilled_order :: order where
  "unfilled_order = \<lparr>average = Some 100, price = None, filled = Some None\<rparr>"

text \<open>
  What \<^verbatim>\<open>sell_position\<close> may call between the order and the record: nothing, or the
  ticker for the exit price.
\<close>

definition sell_pre :: "'w bot \<Rightarrow> event list \<Rightarrow> bool" where
  "sell_pre s pre = (pre = [] \<or> pre = [Fetch_Ticker (symbol s)])"

section \<open>Properties\<close>

subsection \<open>What the helpers leave alone\<close>

lemma log_at_sel [simp]:
  "world (log_at l m s) = world s"
  "history (log_at l m s) = history s"
  "logs (log_at l m s) = logs s @ [(l, m)]"
  "token (log_at l m s) = token s"
  "chat_id (log_at l m s) = chat_id s"
  "symbol (log_at l m s) = symbol s"
  "budget (log_at l m s) = budget s"
  "bot_position (log_at l m s) = bot_position s"
  "strategy (log_at l m s) = strategy s"
  by (simp_all add: log_at_def)

lemma called_sel [simp]:
  "world (called ev w s) = w"
  "history (called ev w s) = history s @ [ev]"
  "logs (called ev w s) = logs s"
  "token (called ev w s) = token s"
  "chat_id (called ev w s) = chat_id s"
  "symbol (called ev w s) = symbol s"
  "budget (called ev w s) = budget s"
  "bot_position (called ev w s) = bot_position s"
  "strategy (called ev w s) = strategy s"
  by (simp_all add: called_def)

lemma send_message_sel [simp]:
  "history (send_message G m s) = history s @ [Send_Message m]"
  "token (send_message G m s) = token s"
  "chat_id (send_message G m s) = chat_id s"
  "symbol (send_message G m s) = symbol s"
  "budget (send_message G m s) = budget s"
  "bot_position (send_message G m s) = bot_position s"
  "strategy (send_message G m s) = strategy s"
  by (simp_all add: send_message_def Let_def split: prod.splits sum.splits)

lemma log_trade_sel [simp]:
  "history (log_trade G d s) = history s @ [Log_Trade d]"
  "token (log_trade G d s) = token s"
  "chat_id (log_trade G d s) = chat_id s"
  "symbol (log_trade G d s) = symbol s"
  "budget (log_trade G d s) = budget s"
  "bot_position (log_trade G d s) = bot_position s"
  "strategy (log_trade G d s) = strategy s"
  by (simp_all add: log_trade_def Let_def split: prod.splits sum.splits)

lemma call_sleep_sel [simp]:
  "history (call_sleep G d s) = history s"
  "logs (call_sleep G d s) = logs s"
  "token (call_sleep G d s) = token s"
  "chat_id (call_sleep G d s) = chat_id s"
  "symbol (call_sleep G d s) = symbol s"
  "budget (call_sleep G d s) = budget s"
  "bot_position (call_sleep G d s) = bot_position s"
  "strategy (call_sleep G d s) = strategy s"
  by (simp_all add: call_sleep_def)

text \<open>Each call to the outside, as the pair of its answer and the state after it.\<close>

lemma call_eqs:
  "call_load_markets G s =
     (fst (load_markets G (world s)), called Load_Markets (snd (load_markets G (world s))) s)"
  "call_fetch_ticker G s =
     (fst (fetch_ticker G (symbol s) (world s)),
      called (Fetch_Ticker (symbol s)) (snd (fetch_ticker G (symbol s) (world s))) s)"
  "call_fetch_ohlcv G tf k s =
     (fst (fetch_ohlcv G (symbol s) tf k (world s)),
      called (Fetch_OHLCV (symbol s) tf k) (snd (fetch_ohlcv G (symbol s) tf k (world s))) s)"
  "call_create_market_buy_order G a s =
     (fst (create_market_buy_order G (symbol s) a (world s)),
      called (Create_Market_Buy_Order (symbol s) a)
        (snd (create_market_buy_order G (symbol s) a (world s))) s)"
  "call_create_market_sell_order G a s =
     (fst (create_market_sell_order G (symbol s) a (world s)),
      called (Create_Market_Sell_Order (symbol s) a)
        (snd (create_market_sell_order G (symbol s) a (world s))) s)"
  "call_exchange_close G s =
     (fst (exchange_close G (world s)), called Exchange_Close (snd (exchange_close G (world s))) s)"
  "call_now G s =
     (fst (datetime_now G (world s)), s\<lparr>world := snd (datetime_now G (world s))\<rparr>)"
  by (simp_all add: call_load_markets_def call_fetch_ticker_def call_fetch_ohlcv_def
      call_create_market_buy_order_def call_create_market_sell_order_def
      call_exchange_close_def call_now_def split_beta)

subsection \<open>The guards of sell\_position and buy\_position\<close>

text \<open>
  C8. Calling \<^verbatim>\<open>sell_position\<close> when no position exists, or \<^verbatim>\<open>buy_position\<close> when one
  exists, does nothing but write the notice to the log: the returned state is the given
  one with one more log line, so the world is untouched (no ticker fetch, no order, no
  other call to the gateway), the history gains no call (no trade record, no notification)
  and position, strategy, budget and symbol are as before.
\<close>

theorem noop_guards:
  "(bot_position s = None \<longrightarrow>
      sell_position G reason s = s\<lparr>logs := logs s @ [(INFO, Log_No_Position_To_Sell)]\<rparr> \<and>
      world (sell_position G reason s) = world s \<and>
      history (sell_position G reason s) = history s) \<and>
   (bot_position s \<noteq> None \<longrightarrow>
      buy_position G s = s\<lparr>logs := logs s @ [(INFO, Log_Already_Holding)]\<rparr> \<and>
      world (buy_position G s) = world s \<and>
      history (buy_position G s) = history s)"
  by (simp add: sell_position_def buy_position_def log_at_def)

theorem noop_guards_witness:
  "sell_position (scripted_env trading_time (Inr ()) (Inr (filled_order (Some 110))) [])
       Strategy_Sell_Signal (sample_bot [105] 200 None (RSIStrategy rsi_default_params))
     = (sample_bot [105] 200 None (RSIStrategy rsi_default_params))
         \<lparr>logs := [(INFO, Log_No_Position_To_Sell)]\<rparr> \<and>
   buy_position (scripted_env trading_time (Inr ()) (Inr (filled_order (Some 110))) [])
       (sample_bot [105] 200 (Some (sample_position 100 (Some 2))) (RSIStrategy rsi_default_params))
     = (sample_bot [105] 200 (Some (sample_position 100 (Some 2))) (RSIStrategy rsi_default_params))
         \<lparr>logs := [(INFO, Log_Already_Holding)]\<rparr>"
  using noop_guards [of "sample_bot [105] 200 None (RSIStrategy rsi_default_params)"
      "scripted_env trading_time (Inr ()) (Inr (filled_order (Some 110))) []" Strategy_Sell_Signal]
    noop_guards [of "sample_bot [105] 200 (Some (sample_position 100 (Some 2))) (RSIStrategy rsi_default_params)"
      "scripted_env trading_time (Inr ()) (Inr (filled_order (Some 110))) []" Strategy_Sell_Signal]
  by (simp add: sample_bot_def)

subsection \<open>What the strategies and the loop helpers leave alone\<close>

lemma vb_get_signal_frame:
  "bot_position (snd (snd (vb_get_signal G v s))) = bot_position s"
  "strategy (snd (snd (vb_get_signal G v s))) = strategy s"
  "symbol (snd (snd (vb_get_signal G v s))) = symbol s"
  "budget (snd (snd (vb_get_signal G v s))) = budget s"
  "token (snd (snd (vb_get_signal G v s))) = token s"
  "chat_id (snd (snd (vb_get_signal G v s))) = chat_id s"
  by (simp_all add: vb_get_signal_def call_eqs split: option.splits sum.splits)

lemma vb_get_signal_history:
  "history (snd (snd (vb_get_signal G v s))) = history s \<or>
   history (snd (snd (vb_get_signal G v s))) = history s @ [Fetch_Ticker (symbol s)]"
  by (simp add: vb_get_signal_def call_eqs split: option.splits sum.splits)

lemma rsi_get_signal_frame:
  "bot_position (snd (rsi_get_signal G p s)) = bot_position s"
  "strategy (snd (rsi_get_signal G p s)) = strategy s"
  "symbol (snd (rsi_get_signal G p s)) = symbol s"
  "budget (snd (rsi_get_signal G p s)) = budget s"
  "token (snd (rsi_get_signal G p s)) = token s"
  "chat_id (snd (rsi_get_signal G p s)) = chat_id s"
  "history (snd (rsi_get_signal G p s)) = history s @ [Fetch_OHLCV (symbol s) ''1h'' 100]"
  by (simp_all add: rsi_get_signal_def call_eqs Let_def split: option.splits sum.splits)

lemma get_signal_frame:
  "bot_position (snd (get_signal G s)) = bot_position s"
  "symbol (snd (get_signal G s)) = symbol s"
  "budget (snd (get_signal G s)) = budget s"
  "token (snd (get_signal G s)) = token s"
  "chat_id (snd (get_signal G s)) = chat_id s"
  "is_rsi (strategy (snd (get_signal G s))) = is_rsi (strategy s)"
  by (simp_all add: get_signal_def Let_def split_beta vb_get_signal_frame rsi_get_signal_frame is_rsi_def
      split: strategy_obj.splits)

lemma get_signal_history:
  "\<exists>evs. history (snd (get_signal G s)) = history s @ Strategy_Get_Signal # evs \<and>
         (\<forall>e \<in> set evs. e = Fetch_Ticker (symbol s) \<or> e = Fetch_OHLCV (symbol s) ''1h'' 100)"
proof (cases "strategy s")
  case (VolatilityBreakoutStrategy v)
  from vb_get_signal_history [of G v "s\<lparr>history := history s @ [Strategy_Get_Signal]\<rparr>"]
  show ?thesis using VolatilityBreakoutStrategy
    by (auto simp: get_signal_def Let_def split_beta)
next
  case (RSIStrategy p)
  then show ?thesis
    by (simp add: get_signal_def Let_def rsi_get_signal_frame)
qed

lemma strategy_reset_frame:
  "bot_position (strategy_reset s) = bot_position s"
  "symbol (strategy_reset s) = symbol s"
  "budget (strategy_reset s) = budget s"
  "world (strategy_reset s) = world s"
  "is_rsi (strategy (strategy_reset s)) = is_rsi (strategy s)"
  "has_prepare_data (strategy (strategy_reset s)) = has_prepare_data (strategy s)"
  "history (strategy_reset s) = history s @ (if has_reset (strategy s) then [Strategy_Reset] else [])"
  by (simp_all add: strategy_reset_def vb_reset_def is_rsi_def has_reset_def has_prepare_data_def
      split: strategy_obj.splits)

lemma prepare_data_frame:
  "bot_position (snd (prepare_data G v s)) = bot_position s"
  "symbol (snd (prepare_data G v s)) = symbol s"
  "budget (snd (prepare_data G v s)) = budget s"
  "history (snd (prepare_data G v s)) = history s @ [Fetch_OHLCV (symbol s) ''1d'' 2]"
  by (simp_all add: prepare_data_def call_eqs Let_def split: sum.splits)

lemma strategy_prepare_data_frame:
  "bot_position (strategy_prepare_data G s) = bot_position s"
  "symbol (strategy_prepare_data G s) = symbol s"
  "budget (strategy_prepare_data G s) = budget s"
  "is_rsi (strategy (strategy_prepare_data G s)) = is_rsi (strategy s)"
  "history (strategy_prepare_data G s) = history s @
     (if has_prepare_data (strategy s) then [Strategy_Prepare_Data, Fetch_OHLCV (symbol s) ''1d'' 2] else [])"
  by (simp_all add: strategy_prepare_data_def split_beta prepare_data_frame is_rsi_def has_prepare_data_def
      split: strategy_obj.splits)

subsection \<open>The outcomes of sell\_position\<close>

lemma trade_records_append [simp]:
  "trade_records (xs @ ys) = trade_records xs @ trade_records ys"
  by (induction xs rule: trade_records.induct) simp_all

lemma sell_failed_sel [simp]:
  "history (sell_failed G e s) = history s @ [Send_Message (Msg_Sell_Failed e)]"
  "bot_position (sell_failed G e s) = bot_position s"
  "strategy (sell_failed G e s) = strategy s"
  "symbol (sell_failed G e s) = symbol s"
  "budget (sell_failed G e s) = budget s"
  by (simp_all add: sell_failed_def)

lemma exit_price_of_frame:
  "bot_position (snd (exit_price_of G ord s)) = bot_position s"
  "strategy (snd (exit_price_of G ord s)) = strategy s"
  "symbol (snd (exit_price_of G ord s)) = symbol s"
  "budget (snd (exit_price_of G ord s)) = budget s"
  "history (snd (exit_price_of G ord s)) = history s \<or>
   history (snd (exit_price_of G ord s)) = history s @ [Fetch_Ticker (symbol s)]"
  by (simp_all add: exit_price_of_def call_eqs Let_def split: sum.splits)

lemma sell_position_outcome:
  assumes "bot_position s = Some pos"
  shows "(\<not> truthy (amount pos) \<and> sell_position G r s = log_at WARNING Log_Unknown_Amount s) \<or>
    (\<exists>a e pre. amount pos = Some a \<and> a \<noteq> 0 \<and>
        bot_position (sell_position G r s) = Some pos \<and> sell_pre s pre \<and>
        history (sell_position G r s) =
          history s @ Create_Market_Sell_Order (symbol s) a # pre @ [Send_Message (Msg_Sell_Failed e)]) \<or>
    (\<exists>a x d pre. amount pos = Some a \<and> a \<noteq> 0 \<and> budget s \<noteq> 0 \<and>
        bot_position (sell_position G r s) = None \<and> sell_pre s pre \<and>
        td_entry_time d = timestamp pos \<and> td_symbol d = symbol s \<and>
        td_entry_price d = entry_price pos \<and> td_exit_price d = x \<and> td_amount d = a \<and>
        td_profit_krw d = py_round2 ((x - entry_price pos) * a) \<and>
        td_profit_percent d = py_round2 ((x - entry_price pos) * a / budget s * 100) \<and>
        history (sell_position G r s) =
          history s @ Create_Market_Sell_Order (symbol s) a # pre @
            [Log_Trade d,
             Send_Message (Msg_Sold r (symbol s) ((x - entry_price pos) * a)
                             ((x - entry_price pos) * a / budget s * 100))])"
proof (cases "amount pos")
  case None
  then show ?thesis using assms by (simp add: sell_position_def truthy_def)
next
  case (Some a)
  show ?thesis
  proof (cases "a = 0")
    case True
    then show ?thesis using assms Some by (simp add: sell_position_def truthy_def)
  next
    case False
    define s0 where "s0 = log_at INFO (Log_Sell_Attempt r) s"
    define s1 where "s1 = called (Create_Market_Sell_Order (symbol s) a)
        (snd (create_market_sell_order G (symbol s) a (world s))) s0"
    have h1: "history s1 = history s @ [Create_Market_Sell_Order (symbol s) a]"
      by (simp add: s1_def s0_def)
    show ?thesis
    proof (cases "fst (create_market_sell_order G (symbol s) a (world s))")
      case (Inl e)
      then have "sell_position G r s = sell_failed G e s1"
        using assms Some False by (simp add: sell_position_def call_eqs s1_def s0_def)
      then show ?thesis using assms Some False h1
        by (intro disjI2 disjI1 exI[of _ a] exI[of _ e] exI[of _ "[]"])
           (simp add: s1_def s0_def sell_pre_def)
    next
      case (Inr ord)
      define r2 where "r2 = fst (exit_price_of G ord s1)"
      define s2 where "s2 = snd (exit_price_of G ord s1)"
      have sp: "sell_position G r s =
          (case (r2, s2) of
             (Inl e, s2) \<Rightarrow> sell_failed G e s2
           | (Inr None, s2) \<Rightarrow> sell_failed G TypeError s2
           | (Inr (Some exit_price), s2) \<Rightarrow>
               if budget s2 = 0 then sell_failed G ZeroDivisionError s2
               else
                 (let profit_krw = (exit_price - entry_price pos) * a;
                      profit_percent = profit_krw / budget s2 * 100
                  in case call_now G s2 of
                       (now, s3) \<Rightarrow>
                         (let details =
                                \<lparr>td_entry_time = timestamp pos,
                                 td_exit_time = now,
                                 td_symbol = symbol s3,
                                 td_entry_price = entry_price pos,
                                 td_exit_price = exit_price,
                                 td_amount = a,
                                 td_profit_krw = py_round2 profit_krw,
                                 td_profit_percent = py_round2 profit_percent\<rparr>;
                              s4 = log_trade G details s3;
                              s5 = send_message G
                                     (Msg_Sold r (symbol s4) profit_krw profit_percent) s4
                          in s5\<lparr>bot_position := None\<rparr>)))"
        using assms Some False Inr
        by (simp add: sell_position_def call_eqs(5) s1_def s0_def r2_def s2_def)
      have f2: "bot_position s2 = Some pos" "symbol s2 = symbol s" "budget s2 = budget s"
        using assms by (simp_all add: s2_def exit_price_of_frame s1_def s0_def)
      obtain pre where pre: "sell_pre s pre" "history s2 = history s1 @ pre"
        using exit_price_of_frame(5) [of G ord s1]
        by (auto simp: s2_def sell_pre_def s1_def s0_def)
      have fail: "bot_position (sell_failed G e s2) = Some pos \<and>
          history (sell_failed G e s2) =
            history s @ Create_Market_Sell_Order (symbol s) a # pre @ [Send_Message (Msg_Sell_Failed e)]"
        for e using f2 pre h1 by simp
      show ?thesis
      proof (cases r2)
        case (Inl e)
        then have "sell_position G r s = sell_failed G e s2" using sp by simp
        then show ?thesis using fail [of e] Some False pre(1) by auto
      next
        case r2: (Inr xo)
        show ?thesis
        proof (cases xo)
          case None
          then have "sell_position G r s = sell_failed G TypeError s2" using sp r2 by simp
          then show ?thesis using fail [of TypeError] Some False pre(1) by auto
        next
          case x: (Some x)
          show ?thesis
          proof (cases "budget s = 0")
            case True
            then have "sell_position G r s = sell_failed G ZeroDivisionError s2"
              using sp r2 x f2 by simp
            then show ?thesis using fail [of ZeroDivisionError] Some False pre(1) by auto
          next
            case b: False
            define d where "d =
               \<lparr>td_entry_time = timestamp pos,
                td_exit_time = fst (datetime_now G (world s2)),
                td_symbol = symbol s,
                td_entry_price = entry_price pos,
                td_exit_price = x,
                td_amount = a,
                td_profit_krw = py_round2 ((x - entry_price pos) * a),
                td_profit_percent = py_round2 ((x - entry_price pos) * a / budget s * 100)\<rparr>"
            have "bot_position (sell_position G r s) = None \<and>
                history (sell_position G r s) =
                  history s @ Create_Market_Sell_Order (symbol s) a # pre @
                   [Log_Trade d,
                    Send_Message (Msg_Sold r (symbol s) ((x - entry_price pos) * a)
                             ((x - entry_price pos) * a / budget s * 100))]"
              using sp r2 x f2 b pre h1 by (simp add: call_eqs(7) Let_def d_def)
            then show ?thesis using Some False b pre(1)
              by (intro disjI2 exI[of _ a] exI[of _ x] exI[of _ d] exI[of _ pre])
                 (simp add: d_def)
          qed
        qed
      qed
    qed
  qed
qed


lemma sell_position_no_buy:
  "filter is_buy_order (history (sell_position G r s)) = filter is_buy_order (history s)"
proof (cases "bot_position s")
  case None
  then show ?thesis by (simp add: sell_position_def)
next
  case (Some pos)
  from sell_position_outcome [OF Some, of G r] show ?thesis
    by (auto simp: sell_pre_def)
qed

lemma sell_position_position:
  "bot_position (sell_position G r s) = None \<or>
   bot_position (sell_position G r s) = bot_position s"
proof (cases "bot_position s")
  case None
  then show ?thesis by (simp add: sell_position_def)
next
  case (Some pos)
  from sell_position_outcome [OF Some, of G r] show ?thesis
    using Some by auto
qed

lemma buy_failed_sel [simp]:
  "history (buy_failed G e s) = history s @ [Send_Message (Msg_Buy_Failed e)]"
  "bot_position (buy_failed G e s) = bot_position s"
  "strategy (buy_failed G e s) = strategy s"
  "symbol (buy_failed G e s) = symbol s"
  "budget (buy_failed G e s) = budget s"
  by (simp_all add: buy_failed_def)

lemma buy_position_frame:
  "strategy (buy_position G s) = strategy s"
  "symbol (buy_position G s) = symbol s"
  "budget (buy_position G s) = budget s"
  by (simp_all add: buy_position_def call_eqs Let_def split_beta
      split: option.splits sum.splits)

lemma buy_position_orders:
  "length (filter is_buy_order (history (buy_position G s))) \<le>
     length (filter is_buy_order (history s)) + 1"
  by (simp add: buy_position_def call_eqs Let_def split_beta
      split: option.splits sum.splits)

lemma get_signal_no_buy:
  "filter is_buy_order (history (snd (get_signal G s))) = filter is_buy_order (history s)"
  using get_signal_history [of G s] by (fastforce simp: filter_empty_conv)

lemma tick_position_kept_no_buy:
  assumes "bot_position s \<noteq> None"
  shows "filter is_buy_order (history (tick G s)) = filter is_buy_order (history s)"
proof -
  define now where "now = fst (datetime_now G (world s))"
  define s0 where "s0 = s\<lparr>world := snd (datetime_now G (world s))\<rparr>"
  have s0: "bot_position s0 = bot_position s" "history s0 = history s"
    by (simp_all add: s0_def)
  show ?thesis
  proof (cases "in_reset_window now")
    case True
    then show ?thesis
      by (simp add: tick_def call_eqs(7) now_def [symmetric] s0_def [symmetric] Let_def
          strategy_reset_frame strategy_prepare_data_frame sell_position_no_buy s0)
  next
    case False
    obtain pos where "bot_position s = Some pos" using assms by auto
    then have "bot_position (snd (get_signal G s0)) = Some pos"
      by (simp add: get_signal_frame s0)
    with False show ?thesis
      by (simp add: tick_def call_eqs(7) now_def [symmetric] s0_def [symmetric] Let_def
          split_beta sell_position_no_buy get_signal_no_buy s0)
  qed
qed

lemma tick_orders:
  "length (filter is_buy_order (history (tick G s))) \<le>
     length (filter is_buy_order (history s)) + 1"
proof -
  define now where "now = fst (datetime_now G (world s))"
  define s0 where "s0 = s\<lparr>world := snd (datetime_now G (world s))\<rparr>"
  have s0: "bot_position s0 = bot_position s" "history s0 = history s"
    by (simp_all add: s0_def)
  show ?thesis
  proof (cases "in_reset_window now")
    case True
    then show ?thesis
      by (simp add: tick_def call_eqs(7) now_def [symmetric] s0_def [symmetric] Let_def
          strategy_reset_frame strategy_prepare_data_frame sell_position_no_buy s0)
  next
    case False
    have "length (filter is_buy_order (history (buy_position G (snd (get_signal G s0))))) \<le>
        length (filter is_buy_order (history s)) + 1"
      using buy_position_orders [of G "snd (get_signal G s0)"]
      by (simp add: get_signal_no_buy s0)
    with False show ?thesis
      by (simp add: tick_def call_eqs(7) now_def [symmetric] s0_def [symmetric] Let_def
          split_beta sell_position_no_buy get_signal_no_buy s0)
  qed
qed


subsection \<open>At most one position\<close>

text \<open>
  C1. The bot tracks its exposure in the single slot \<^verbatim>\<open>self.position\<close>, so after any
  number of passes of the loop, from any state and against any world, the number of open
  positions is 0 or 1. While a position exists no second one is created: \<^verbatim>\<open>buy_position\<close>
  returns without any call (history and world as before, position kept), and a whole pass
  of the loop that starts with a position places no buy order, whatever the strategy
  signals. No pass places more than one buy order.
\<close>

theorem at_most_one_position:
  "open_positions (run_loop G n s) \<le> 1 \<and>
   (bot_position s \<noteq> None \<longrightarrow>
      bot_position (buy_position G s) = bot_position s \<and>
      history (buy_position G s) = history s \<and>
      world (buy_position G s) = world s) \<and>
   (bot_position s \<noteq> None \<longrightarrow>
      filter is_buy_order (history (tick G s)) = filter is_buy_order (history s)) \<and>
   length (filter is_buy_order (history (tick G s))) \<le>
     length (filter is_buy_order (history s)) + 1"
proof -
  have "open_positions (run_loop G n s) \<le> 1"
    by (simp add: open_positions_def split: option.splits)
  moreover have "bot_position s \<noteq> None \<longrightarrow>
      bot_position (buy_position G s) = bot_position s \<and>
      history (buy_position G s) = history s \<and>
      world (buy_position G s) = world s"
    by (simp add: buy_position_def)
  ultimately show ?thesis
    using tick_position_kept_no_buy [of s G] tick_orders [of G s] by blast
qed

theorem at_most_one_position_witness:
  "bot_position (sample_bot [105] 200 (Some (sample_position 100 (Some 2)))
      (VolatilityBreakoutStrategy (vb_init vb_default_params))) \<noteq> None \<and>
   open_positions (run_loop (scripted_env trading_time (Inr ()) (Inr (filled_order (Some 110))) []) 3
      (sample_bot [105] 200 (Some (sample_position 100 (Some 2)))
        (VolatilityBreakoutStrategy (vb_init vb_default_params)))) \<le> 1 \<and>
   history (buy_position (scripted_env trading_time (Inr ()) (Inr (filled_order (Some 110))) [])
      (sample_bot [105] 200 (Some (sample_position 100 (Some 2)))
        (VolatilityBreakoutStrategy (vb_init vb_default_params)))) = [] \<and>
   filter is_buy_order
     (history (tick (scripted_env trading_time (Inr ()) (Inr (filled_order (Some 110))) [])
       (sample_bot [105] 200 (Some (sample_position 100 (Some 2)))
         (VolatilityBreakoutStrategy (vb_init vb_default_params))))) = []"
  using at_most_one_position
    [of "scripted_env trading_time (Inr ()) (Inr (filled_order (Some 110))) []" 3
      "sample_bot [105] 200 (Some (sample_position 100 (Some 2)))
        (VolatilityBreakoutStrategy (vb_init vb_default_params))"]
  by (simp add: sample_bot_def)

subsection \<open>A position without a sellable amount\<close>

lemma get_signal_no_orders:
  "filter is_order_or_record (history (snd (get_signal G s))) =
   filter is_order_or_record (history s)"
  using get_signal_history [of G s] by (fastforce simp: filter_empty_conv)

lemma sell_position_stuck:
  assumes "bot_position s = Some pos" and "amount pos = None \<or> amount pos = Some 0"
  shows "sell_position G r s = s\<lparr>logs := logs s @ [(WARNING, Log_Unknown_Amount)]\<rparr>"
  using assms by (auto simp: sell_position_def log_at_def)

lemma tick_stuck:
  assumes pos: "bot_position s = Some pos" and amt: "amount pos = None \<or> amount pos = Some 0"
  shows "bot_position (tick G s) = Some pos \<and>
         filter is_order_or_record (history (tick G s)) = filter is_order_or_record (history s)"
proof -
  define now where "now = fst (datetime_now G (world s))"
  define s0 where "s0 = s\<lparr>world := snd (datetime_now G (world s))\<rparr>"
  have s0: "bot_position s0 = Some pos" "history s0 = history s"
    using pos by (simp_all add: s0_def)
  show ?thesis
  proof (cases "in_reset_window now")
    case True
    define s1 where "s1 = log_at INFO (Log_Reset_Time now) s0"
    have "bot_position s1 = Some pos" using s0 by (simp add: s1_def)
    from sell_position_stuck [OF this amt, of G Scheduled_Sell]
    have "sell_position G Scheduled_Sell s1 = s1\<lparr>logs := logs s1 @ [(WARNING, Log_Unknown_Amount)]\<rparr>" .
    with True show ?thesis using s0
      by (simp add: tick_def call_eqs(7) now_def [symmetric] s0_def [symmetric] Let_def
          s1_def [symmetric] strategy_reset_frame strategy_prepare_data_frame)
         (simp add: s1_def)
  next
    case False
    define s1 where "s1 = snd (get_signal G s0)"
    have p1: "bot_position s1 = Some pos"
      using s0 by (simp add: s1_def get_signal_frame)
    have h1: "filter is_order_or_record (history s1) = filter is_order_or_record (history s)"
      using s0 by (simp add: s1_def get_signal_no_orders)
    from sell_position_stuck [OF p1 amt, of G Strategy_Sell_Signal]
    have "sell_position G Strategy_Sell_Signal s1 = s1\<lparr>logs := logs s1 @ [(WARNING, Log_Unknown_Amount)]\<rparr>" .
    with False show ?thesis using p1 h1
      by (simp add: tick_def call_eqs(7) now_def [symmetric] s0_def [symmetric] Let_def
          split_beta s1_def [symmetric])
  qed
qed

text \<open>
  C10. If the stored amount of the open position is None (a missing key reads as None
  through \<^verbatim>\<open>self.position.get('amount')\<close>) or zero, \<^verbatim>\<open>sell_position\<close> returns after
  the warning: the state is the given one with one more log line, so no order is placed,
  no trade record is handed on and the position is kept. The loop never buys while a
  position exists, so after any number of passes, against any world, the position is
  still the same one and the history holds no further order or trade record. Such a
  position arises from \<^verbatim>\<open>buy_position\<close> itself, which stores \<^verbatim>\<open>order.get('filled', amount)\<close>
  as reported: the witness builds it from an order whose fill is None.
\<close>

theorem stuck_position:
  assumes "bot_position s = Some pos" and "amount pos = None \<or> amount pos = Some 0"
  shows "sell_position G reason s = s\<lparr>logs := logs s @ [(WARNING, Log_Unknown_Amount)]\<rparr> \<and>
         bot_position (run_loop G n s) = Some pos \<and>
         filter is_order_or_record (history (run_loop G n s)) =
           filter is_order_or_record (history s)"
proof -
  have "bot_position (run_loop G n s) = Some pos \<and>
        filter is_order_or_record (history (run_loop G n s)) =
          filter is_order_or_record (history s)"
    using assms
  proof (induction n arbitrary: s)
    case 0
    then show ?case by simp
  next
    case (Suc n)
    from tick_stuck [OF Suc.prems, of G]
    have t: "bot_position (tick G s) = Some pos"
      "filter is_order_or_record (history (tick G s)) = filter is_order_or_record (history s)"
      by simp_all
    from Suc.IH [OF t(1) Suc.prems(2)] t(2) show ?case by simp
  qed
  then show ?thesis using sell_position_stuck [OF assms, of G reason] by simp
qed

theorem stuck_position_witness:
  "bot_position (buy_position (scripted_env trading_time (Inr ()) (Inr unfilled_order) [])
      (sample_bot [100] 200 None (RSIStrategy rsi_default_params)))
     = Some (sample_position 100 None) \<and>
   amount (sample_position 100 None) = None \<and>
   bot_position (run_loop (scripted_env reset_time (Inr ()) (Inr (filled_order (Some 110))) []) 5
     (buy_position (scripted_env trading_time (Inr ()) (Inr unfilled_order) [])
        (sample_bot [100] 200 None (RSIStrategy rsi_default_params))))
     = Some (sample_position 100 None) \<and>
   filter is_order_or_record
     (history (run_loop (scripted_env reset_time (Inr ()) (Inr (filled_order (Some 110))) []) 5
       (buy_position (scripted_env trading_time (Inr ()) (Inr unfilled_order) [])
          (sample_bot [100] 200 None (RSIStrategy rsi_default_params)))))
     = [Create_Market_Buy_Order TARGET_SYMBOL (1999 / 1000)]"
proof -
  have h: "bot_position (buy_position (scripted_env trading_time (Inr ()) (Inr unfilled_order) [])
      (sample_bot [100] 200 None (RSIStrategy rsi_default_params)))
     = Some (sample_position 100 None)"
    by (simp add: buy_position_def call_eqs scripted_env_def sample_bot_def unfilled_order_def
      sample_position_def py_or_def truthy_def Let_def buy_failed_def)
  have a: "amount (sample_position 100 None) = None \<or> amount (sample_position 100 None) = Some 0"
    by (simp add: sample_position_def)
  have hist: "filter is_order_or_record (history (buy_position (scripted_env trading_time (Inr ()) (Inr unfilled_order) [])
      (sample_bot [100] 200 None (RSIStrategy rsi_default_params))))
     = [Create_Market_Buy_Order TARGET_SYMBOL (1999 / 1000)]"
    by (simp add: buy_position_def call_eqs scripted_env_def sample_bot_def unfilled_order_def
      sample_position_def py_or_def truthy_def Let_def buy_failed_def)
  from stuck_position [OF h a, of "scripted_env reset_time (Inr ()) (Inr (filled_order (Some 110))) []" Scheduled_Sell 5]
  show ?thesis using h hist by (simp add: sample_position_def)
qed

subsection \<open>Selling: order, record, notification, clearing\<close>










subsection \<open>Profit and loss\<close>




subsection \<open>The breakout strategy\<close>

lemma vb_get_signal_idle:
  "bought v \<or> target_price v = None \<Longrightarrow> vb_get_signal G v s = (HOLD, v, s)"
  by (auto simp: vb_get_signal_def split: option.splits)

lemma vb_get_signal_priced:
  assumes "target_price v = Some t" and "\<not> bought v"
    and "fetch_ticker G (symbol s) (world s) = (Inr tk, w)" and "last_price tk = Some p"
  shows "vb_get_signal G v s =
     (if t < p
      then (BUY, v\<lparr>bought := True\<rparr>,
            log_at INFO (Log_Breakout_Buy_Signal p t) (called (Fetch_Ticker (symbol s)) w s))
      else (HOLD, v, called (Fetch_Ticker (symbol s)) w s))"
  using assms by (simp add: vb_get_signal_def call_eqs)

lemma vb_poll_idle:
  "bought v \<or> target_price v = None \<Longrightarrow> vb_poll G n v s = (replicate n HOLD, v, s)"
  by (induction n) (simp_all add: vb_get_signal_idle)

lemma vb_get_signal_buy_sets_flag:
  "fst (vb_get_signal G v s) = BUY \<Longrightarrow> bought (fst (snd (vb_get_signal G v s)))"
  by (auto simp: vb_get_signal_def call_eqs split: option.splits sum.splits if_splits)

lemma vb_flag_kept:
  "bought v \<Longrightarrow> bought (fst (snd (vb_get_signal G v s))) \<and> bought (fst (prepare_data G v s))"
  by (simp add: vb_get_signal_idle prepare_data_def call_eqs Let_def split: sum.splits)

lemma vb_reset_clears:
  "\<not> bought (fst (vb_reset v s)) \<and> target_price (fst (vb_reset v s)) = None"
  by (simp add: vb_reset_def)

lemma vb_poll_add:
  "vb_poll G (m + n) v s =
     (case vb_poll G m v s of
        (sigs, v1, s1) \<Rightarrow>
          (case vb_poll G n v1 s1 of (sigs', v2, s2) \<Rightarrow> (sigs @ sigs', v2, s2)))"
  by (induction m arbitrary: v s) (simp_all add: split_beta)

lemma vb_poll_three:
  assumes "target_price v = Some t" and "\<not> bought v"
    and "fetch_ticker G (symbol s) (world s) = (Inr tk1, w1)" and "last_price tk1 = Some p1"
    and "p1 \<le> t"
    and "fetch_ticker G (symbol s) w1 = (Inr tk2, w2)" and "last_price tk2 = Some p2"
    and "p2 \<le> t"
    and "fetch_ticker G (symbol s) w2 = (Inr tk3, w3)" and "last_price tk3 = Some p3"
    and "t < p3"
  shows "vb_poll G 3 v s =
     ([HOLD, HOLD, BUY], v\<lparr>bought := True\<rparr>,
      log_at INFO (Log_Breakout_Buy_Signal p3 t)
        (called (Fetch_Ticker (symbol s)) w3
          (called (Fetch_Ticker (symbol s)) w2 (called (Fetch_Ticker (symbol s)) w1 s))))"
proof -
  define s1 where "s1 = called (Fetch_Ticker (symbol s)) w1 s"
  define s2 where "s2 = called (Fetch_Ticker (symbol s)) w2 s1"
  have g1: "vb_get_signal G v s = (HOLD, v, s1)"
    using vb_get_signal_priced [OF assms(1,2,3,4)] assms(5) by (simp add: s1_def)
  have "fetch_ticker G (symbol s1) (world s1) = (Inr tk2, w2)"
    using assms(6) by (simp add: s1_def)
  from vb_get_signal_priced [OF assms(1,2) this assms(7)] assms(8)
  have g2: "vb_get_signal G v s1 = (HOLD, v, s2)" by (simp add: s2_def s1_def)
  have "fetch_ticker G (symbol s2) (world s2) = (Inr tk3, w3)"
    using assms(9) by (simp add: s2_def s1_def)
  from vb_get_signal_priced [OF assms(1,2) this assms(10)] assms(11)
  have g3: "vb_get_signal G v s2 =
      (BUY, v\<lparr>bought := True\<rparr>,
       log_at INFO (Log_Breakout_Buy_Signal p3 t) (called (Fetch_Ticker (symbol s)) w3 s2))"
    by (simp add: s2_def s1_def)
  have "vb_poll G (Suc (Suc (Suc 0))) v s =
     ([HOLD, HOLD, BUY], v\<lparr>bought := True\<rparr>,
      log_at INFO (Log_Breakout_Buy_Signal p3 t) (called (Fetch_Ticker (symbol s)) w3 s2))"
    by (simp add: g1 g2 g3)
  then show ?thesis by (simp add: numeral_3_eq_3 s2_def s1_def)
qed

lemma prepare_data_short:
  assumes "fetch_ohlcv G (symbol s) ''1d'' 2 (world s) = (Inr rows, w)" and "length rows < 2"
  shows "fst (prepare_data G v s) = v\<lparr>target_price := None\<rparr>"
  using assms by (simp add: prepare_data_def call_eqs)

lemma prepare_data_enough:
  assumes "fetch_ohlcv G (symbol s) ''1d'' 2 (world s) = (Inr rows, w)" and "2 \<le> length rows"
  shows "target_price (fst (prepare_data G v s)) \<noteq> None"
  using assms by (simp add: prepare_data_def call_eqs Let_def)

text \<open>
  C3. Let the breakout strategy have the target \<open>t\<close> and not have fired. If the first
  two tickers it fetches report prices at or below \<open>t\<close> and the third a price strictly
  above, then \<open>3 + n\<close> evaluations of \<^verbatim>\<open>get_signal\<close> give HOLD, HOLD, BUY and then
  \<open>n\<close> times HOLD, for every \<open>n\<close> and whatever the feed reports after the third tick
  (the strategy fetches no further ticker: the world is the one after the third fetch).
  The flag is set in the very call that returns BUY; once set, \<^verbatim>\<open>get_signal\<close> returns
  HOLD without touching anything and \<^verbatim>\<open>prepare_data\<close> keeps the flag; \<^verbatim>\<open>reset\<close>
  clears it.
\<close>

theorem breakout_single_fire:
  assumes "target_price v = Some t" and "\<not> bought v"
    and "fetch_ticker G (symbol s) (world s) = (Inr tk1, w1)" and "last_price tk1 = Some p1"
    and "p1 \<le> t"
    and "fetch_ticker G (symbol s) w1 = (Inr tk2, w2)" and "last_price tk2 = Some p2"
    and "p2 \<le> t"
    and "fetch_ticker G (symbol s) w2 = (Inr tk3, w3)" and "last_price tk3 = Some p3"
    and "t < p3"
  shows "fst (vb_poll G (3 + n) v s) = [HOLD, HOLD, BUY] @ replicate n HOLD \<and>
     fst (snd (vb_poll G 3 v s)) = v\<lparr>bought := True\<rparr> \<and>
     fst (snd (vb_poll G (3 + n) v s)) = v\<lparr>bought := True\<rparr> \<and>
     world (snd (snd (vb_poll G (3 + n) v s))) = w3 \<and>
     (\<forall>G' v' s'. fst (vb_get_signal G' v' s') = BUY \<longrightarrow>
        bought (fst (snd (vb_get_signal G' v' s')))) \<and>
     (\<forall>G' v' s'. bought v' \<longrightarrow>
        vb_get_signal G' v' s' = (HOLD, v', s') \<and> bought (fst (prepare_data G' v' s'))) \<and>
     (\<forall>v' s'. \<not> bought (fst (vb_reset v' s')))"
proof -
  note three = vb_poll_three [OF assms]
  have "vb_poll G (3 + n) v s =
     ([HOLD, HOLD, BUY] @ replicate n HOLD, v\<lparr>bought := True\<rparr>,
      log_at INFO (Log_Breakout_Buy_Signal p3 t)
        (called (Fetch_Ticker (symbol s)) w3
          (called (Fetch_Ticker (symbol s)) w2 (called (Fetch_Ticker (symbol s)) w1 s))))"
    by (simp add: vb_poll_add [of G 3 n] three vb_poll_idle)
  moreover have "\<forall>G' v' s'. fst (vb_get_signal G' v' s') = BUY \<longrightarrow>
        bought (fst (snd (vb_get_signal G' v' s')))"
    using vb_get_signal_buy_sets_flag by blast
  moreover have "\<forall>G' v' s'. bought v' \<longrightarrow>
        vb_get_signal G' v' s' = (HOLD, v', s') \<and> bought (fst (prepare_data G' v' s'))"
    using vb_flag_kept vb_get_signal_idle by blast
  moreover have "\<forall>v' s'. \<not> bought (fst (vb_reset v' s'))"
    using vb_reset_clears by blast
  ultimately show ?thesis
    using three by simp
qed

theorem breakout_single_fire_witness:
  "target_price (armed 100) = Some 100 \<and> \<not> bought (armed 100) \<and>
   (90 :: rat) \<le> 100 \<and> (95 :: rat) \<le> 100 \<and> (100 :: rat) < 105 \<and>
   fst (vb_poll (answering None) (3 + 2) (armed 100)
          (sample_bot [90, 95, 105, 120, 130] 200 None (VolatilityBreakoutStrategy (armed 100))))
     = [HOLD, HOLD, BUY, HOLD, HOLD] \<and>
   world (snd (snd (vb_poll (answering None) (3 + 2) (armed 100)
          (sample_bot [90, 95, 105, 120, 130] 200 None (VolatilityBreakoutStrategy (armed 100))))))
     = [120, 130]"
proof -
  let ?s = "sample_bot [90, 95, 105, 120, 130] 200 None (VolatilityBreakoutStrategy (armed 100))"
  have a: "target_price (armed 100) = Some 100" "\<not> bought (armed 100)"
    by (simp_all add: armed_def vb_init_def)
  have f1: "fetch_ticker (answering None) (symbol ?s) (world ?s) =
      (Inr \<lparr>last_price = Some 90\<rparr>, [95, 105, 120, 130])"
    by (simp add: answering_def scripted_env_def sample_bot_def)
  have f2: "fetch_ticker (answering None) (symbol ?s) [95, 105, 120, 130] =
      (Inr \<lparr>last_price = Some 95\<rparr>, [105, 120, 130])"
    by (simp add: answering_def scripted_env_def)
  have f3: "fetch_ticker (answering None) (symbol ?s) [105, 120, 130] =
      (Inr \<lparr>last_price = Some 105\<rparr>, [120, 130])"
    by (simp add: answering_def scripted_env_def)
  have l: "last_price \<lparr>last_price = Some 90\<rparr> = Some 90"
    "last_price \<lparr>last_price = Some 95\<rparr> = Some 95"
    "last_price \<lparr>last_price = Some 105\<rparr> = Some 105"
    by simp_all
  have c: "(90 :: rat) \<le> 100" "(95 :: rat) \<le> 100" "(100 :: rat) < 105" by simp_all
  note r = breakout_single_fire [OF a f1 l(1) c(1) f2 l(2) c(2) f3 l(3) c(3), of 2]
  have rep: "[HOLD, HOLD, BUY] @ replicate 2 HOLD = [HOLD, HOLD, BUY, HOLD, HOLD]"
    by (simp add: numeral_2_eq_2)
  have p: "fst (vb_poll (answering None) (3 + 2) (armed 100) ?s) = [HOLD, HOLD, BUY, HOLD, HOLD]"
    using r rep by (elim conjE) (simp only:)
  have q: "world (snd (snd (vb_poll (answering None) (3 + 2) (armed 100) ?s))) = [120, 130]"
    using r by (elim conjE)
  show ?thesis using a c p q by (intro conjI)
qed

text \<open>
  C7. If \<^verbatim>\<open>prepare_data\<close> receives fewer than two daily candles, the target is None
  afterwards (also when it was defined before). From then on any number of evaluations of
  \<^verbatim>\<open>get_signal\<close>, against any world, return HOLD and change nothing; \<^verbatim>\<open>get_signal\<close>
  is a total function here, as every statement of the source that can raise stands inside
  its \<^verbatim>\<open>try\<close>. A later \<^verbatim>\<open>prepare_data\<close> that receives two candles or more defines the
  target again.
\<close>

theorem breakout_insufficient_data:
  assumes "fetch_ohlcv G (symbol s) ''1d'' 2 (world s) = (Inr rows, w)" and "length rows < 2"
  shows "target_price (fst (prepare_data G v s)) = None \<and>
     (\<forall>G' n s'. vb_poll G' n (fst (prepare_data G v s)) s' =
        (replicate n HOLD, fst (prepare_data G v s), s')) \<and>
     (\<forall>G' s' rows' w'.
        fetch_ohlcv G' (symbol s') ''1d'' 2 (world s') = (Inr rows', w') \<and> 2 \<le> length rows' \<longrightarrow>
        target_price (fst (prepare_data G' (fst (prepare_data G v s)) s')) \<noteq> None)"
proof -
  have t: "target_price (fst (prepare_data G v s)) = None"
    by (simp add: prepare_data_short [OF assms])
  then have "\<forall>G' n s'. vb_poll G' n (fst (prepare_data G v s)) s' =
        (replicate n HOLD, fst (prepare_data G v s), s')"
    by (simp add: vb_poll_idle)
  moreover have "\<forall>G' s' rows' w'.
        fetch_ohlcv G' (symbol s') ''1d'' 2 (world s') = (Inr rows', w') \<and> 2 \<le> length rows' \<longrightarrow>
        target_price (fst (prepare_data G' (fst (prepare_data G v s)) s')) \<noteq> None"
    by (intro allI impI, elim conjE, rule prepare_data_enough)
  ultimately show ?thesis using t by (intro conjI)
qed

theorem breakout_insufficient_data_witness:
  "length [(1, 100, 110, 90, 105, 7) :: candle] < 2 \<and>
   target_price (fst (prepare_data
        (scripted_env trading_time (Inr ()) (Inr (filled_order None)) [(1, 100, 110, 90, 105, 7)])
        (armed 100)
        (sample_bot [120, 130] 200 None (VolatilityBreakoutStrategy (armed 100))))) = None \<and>
   fst (vb_poll (answering None) 4
        (fst (prepare_data
          (scripted_env trading_time (Inr ()) (Inr (filled_order None)) [(1, 100, 110, 90, 105, 7)])
          (armed 100)
          (sample_bot [120, 130] 200 None (VolatilityBreakoutStrategy (armed 100)))))
        (sample_bot [120, 130] 200 None (VolatilityBreakoutStrategy (armed 100))))
     = [HOLD, HOLD, HOLD, HOLD]"
proof -
  let ?E = "scripted_env trading_time (Inr ()) (Inr (filled_order None)) [(1, 100, 110, 90, 105, 7)]"
  let ?s = "sample_bot [120, 130] 200 None (VolatilityBreakoutStrategy (armed 100))"
  have f: "fetch_ohlcv ?E (symbol ?s) ''1d'' 2 (world ?s) = (Inr [(1, 100, 110, 90, 105, 7)], [120, 130])"
    by (simp add: scripted_env_def sample_bot_def)
  have l: "length [(1, 100, 110, 90, 105, 7) :: candle] < 2" by simp
  note r = breakout_insufficient_data [OF f l, of "armed 100"]
  have p: "target_price (fst (prepare_data ?E (armed 100) ?s)) = None"
    using r by (elim conjE)
  have "vb_poll (answering None) 4 (fst (prepare_data ?E (armed 100) ?s)) ?s =
      (replicate 4 HOLD, fst (prepare_data ?E (armed 100) ?s), ?s)"
    using r by (elim conjE allE)
  moreover have "replicate 4 HOLD = [HOLD, HOLD, HOLD, HOLD]"
    by (simp add: numeral_eq_Suc)
  ultimately have q: "fst (vb_poll (answering None) 4 (fst (prepare_data ?E (armed 100) ?s)) ?s)
      = [HOLD, HOLD, HOLD, HOLD]"
    by (simp only: fst_conv)
  show ?thesis using l p q by (intro conjI)
qed

subsection \<open>The RSI strategy\<close>

lemma rsi_get_signal_value:
  assumes "fetch_ohlcv G (symbol s) ''1h'' 100 (world s) = (Inr rows, w)"
    and "ta_rsi G (dict_get p ''rsi_period'' 14) rows = Inr (Some series)"
    and "series \<noteq> []" and "last series = Some v"
  shows "fst (rsi_get_signal G p s) =
     (if v < dict_get p ''oversold'' 30 then BUY
      else if dict_get p ''overbought'' 70 < v then SELL else HOLD)"
  using assms by (simp add: rsi_get_signal_def call_eqs(3) Let_def nan_less_def nan_greater_def)

lemma rsi_get_signal_no_value:
  assumes "fetch_ohlcv G (symbol s) ''1h'' 100 (world s) = (r, w)"
    and "(\<exists>e. r = Inl e) \<or>
         (\<exists>rows. r = Inr rows \<and>
            ((\<exists>e. ta_rsi G (dict_get p ''rsi_period'' 14) rows = Inl e) \<or>
             ta_rsi G (dict_get p ''rsi_period'' 14) rows = Inr None \<or>
             ta_rsi G (dict_get p ''rsi_period'' 14) rows = Inr (Some []) \<or>
             (\<exists>series. ta_rsi G (dict_get p ''rsi_period'' 14) rows = Inr (Some series) \<and>
                 series \<noteq> [] \<and> last series = None)))"
  shows "fst (rsi_get_signal G p s) = HOLD"
  using assms
  by (auto simp: rsi_get_signal_def call_eqs(3) Let_def nan_less_def nan_greater_def)

text \<open>
  C6. Let the hourly candles be fetched. Whenever the indicator is computable (the library
  returns a non-empty series whose last entry \<open>v\<close> is a number), \<^verbatim>\<open>get_signal\<close>
  returns BUY exactly when \<open>v\<close> is strictly below the oversold threshold, and SELL exactly
  when \<open>v\<close> is strictly above the overbought threshold and not below the oversold one
  (the source tests the oversold threshold first). For thresholds in their order, oversold
  at most overbought, as with the defaults 30 and 70 that the bot always uses, this is:
  SELL exactly when \<open>v\<close> is strictly above the overbought threshold, and HOLD exactly
  when \<open>v\<close> lies between the two, bounds included. A missing key falls back to its
  default. Whenever the indicator is not computable (the fetch or the library raises, the
  library returns None or an empty series, or the last entry is NaN, which is what a
  window too short for the period yields), the signal is HOLD.
\<close>

theorem rsi_threshold_classification:
  assumes "fetch_ohlcv G (symbol s) ''1h'' 100 (world s) = (r, w)"
  shows
    "(\<forall>rows series v.
        r = Inr rows \<and> ta_rsi G (dict_get p ''rsi_period'' 14) rows = Inr (Some series) \<and>
        series \<noteq> [] \<and> last series = Some v \<longrightarrow>
          (fst (rsi_get_signal G p s) = BUY \<longleftrightarrow> v < dict_get p ''oversold'' 30) \<and>
          (fst (rsi_get_signal G p s) = SELL \<longleftrightarrow>
             dict_get p ''overbought'' 70 < v \<and> \<not> v < dict_get p ''oversold'' 30) \<and>
          (dict_get p ''oversold'' 30 \<le> dict_get p ''overbought'' 70 \<longrightarrow>
             (fst (rsi_get_signal G p s) = SELL \<longleftrightarrow> dict_get p ''overbought'' 70 < v) \<and>
             (fst (rsi_get_signal G p s) = HOLD \<longleftrightarrow>
                dict_get p ''oversold'' 30 \<le> v \<and> v \<le> dict_get p ''overbought'' 70))) \<and>
     ((\<exists>e. r = Inl e) \<or>
      (\<exists>rows. r = Inr rows \<and>
         ((\<exists>e. ta_rsi G (dict_get p ''rsi_period'' 14) rows = Inl e) \<or>
          ta_rsi G (dict_get p ''rsi_period'' 14) rows = Inr None \<or>
          ta_rsi G (dict_get p ''rsi_period'' 14) rows = Inr (Some []) \<or>
          (\<exists>series. ta_rsi G (dict_get p ''rsi_period'' 14) rows = Inr (Some series) \<and>
              series \<noteq> [] \<and> last series = None))) \<longrightarrow>
        fst (rsi_get_signal G p s) = HOLD)"
proof (intro conjI allI impI)
  fix rows series v
  assume h: "r = Inr rows \<and> ta_rsi G (dict_get p ''rsi_period'' 14) rows = Inr (Some series) \<and>
        series \<noteq> [] \<and> last series = Some v"
  then have f: "fetch_ohlcv G (symbol s) ''1h'' 100 (world s) = (Inr rows, w)"
    using assms by simp
  note e = rsi_get_signal_value [OF f, of p series v]
  show "fst (rsi_get_signal G p s) = BUY \<longleftrightarrow> v < dict_get p ''oversold'' 30"
    using e h by simp
  show "fst (rsi_get_signal G p s) = SELL \<longleftrightarrow>
      dict_get p ''overbought'' 70 < v \<and> \<not> v < dict_get p ''oversold'' 30"
    using e h by simp
  assume o: "dict_get p ''oversold'' 30 \<le> dict_get p ''overbought'' 70"
  show "fst (rsi_get_signal G p s) = SELL \<longleftrightarrow> dict_get p ''overbought'' 70 < v"
    using e h o by auto
  show "fst (rsi_get_signal G p s) = HOLD \<longleftrightarrow>
      dict_get p ''oversold'' 30 \<le> v \<and> v \<le> dict_get p ''overbought'' 70"
    using e h o by auto
next
  assume "(\<exists>e. r = Inl e) \<or>
      (\<exists>rows. r = Inr rows \<and>
         ((\<exists>e. ta_rsi G (dict_get p ''rsi_period'' 14) rows = Inl e) \<or>
          ta_rsi G (dict_get p ''rsi_period'' 14) rows = Inr None \<or>
          ta_rsi G (dict_get p ''rsi_period'' 14) rows = Inr (Some []) \<or>
          (\<exists>series. ta_rsi G (dict_get p ''rsi_period'' 14) rows = Inr (Some series) \<and>
              series \<noteq> [] \<and> last series = None)))"
  then show "fst (rsi_get_signal G p s) = HOLD"
    by (rule rsi_get_signal_no_value [OF assms])
qed

theorem rsi_threshold_classification_witness:
  "fst (rsi_get_signal (rsi_reporting (Some [None, Some 25])) rsi_default_params
         (sample_bot [] 200 None (RSIStrategy rsi_default_params))) = BUY \<and>
   fst (rsi_get_signal (rsi_reporting (Some [None, Some 75])) rsi_default_params
         (sample_bot [] 200 None (RSIStrategy rsi_default_params))) = SELL \<and>
   fst (rsi_get_signal (rsi_reporting (Some [None, Some 50])) rsi_default_params
         (sample_bot [] 200 None (RSIStrategy rsi_default_params))) = HOLD \<and>
   fst (rsi_get_signal (rsi_reporting None) rsi_default_params
         (sample_bot [] 200 None (RSIStrategy rsi_default_params))) = HOLD"
proof -
  let ?s = "sample_bot [] 200 None (RSIStrategy rsi_default_params)"
  let ?p = "rsi_default_params"
  have d: "dict_get ?p ''oversold'' 30 = 30" "dict_get ?p ''overbought'' 70 = 70"
    by (simp_all add: dict_get_def rsi_default_params_def)
  have f: "fetch_ohlcv (rsi_reporting x) (symbol ?s) ''1h'' 100 (world ?s) = (Inr [], [])" for x
    by (simp add: rsi_reporting_def answering_def scripted_env_def sample_bot_def)
  have k: "ta_rsi (rsi_reporting x) (dict_get ?p ''rsi_period'' 14) [] = Inr x" for x
    by (simp add: rsi_reporting_def)
  have "fst (rsi_get_signal (rsi_reporting (Some [None, Some 25])) ?p ?s) = BUY \<longleftrightarrow>
      (25 :: rat) < dict_get ?p ''oversold'' 30"
    using rsi_threshold_classification [OF f, of "Some [None, Some 25]" ?p]
      k [of "Some [None, Some 25]"]
    by (elim conjE) (erule allE [where x = "[]"], erule allE [where x = "[None, Some 25]"],
        erule allE [where x = 25], simp add: d)
  then have b: "fst (rsi_get_signal (rsi_reporting (Some [None, Some 25])) ?p ?s) = BUY"
    by (simp add: d)
  have "dict_get ?p ''oversold'' 30 \<le> dict_get ?p ''overbought'' 70 \<longrightarrow>
      (fst (rsi_get_signal (rsi_reporting (Some [None, Some 75])) ?p ?s) = SELL \<longleftrightarrow>
         dict_get ?p ''overbought'' 70 < (75 :: rat))"
    using rsi_threshold_classification [OF f, of "Some [None, Some 75]" ?p]
      k [of "Some [None, Some 75]"]
    by (elim conjE) (erule allE [where x = "[]"], erule allE [where x = "[None, Some 75]"],
        erule allE [where x = 75], simp add: d)
  then have s: "fst (rsi_get_signal (rsi_reporting (Some [None, Some 75])) ?p ?s) = SELL"
    by (simp add: d)
  have "dict_get ?p ''oversold'' 30 \<le> dict_get ?p ''overbought'' 70 \<longrightarrow>
      (fst (rsi_get_signal (rsi_reporting (Some [None, Some 50])) ?p ?s) = HOLD \<longleftrightarrow>
         dict_get ?p ''oversold'' 30 \<le> (50 :: rat) \<and> 50 \<le> dict_get ?p ''overbought'' 70)"
    using rsi_threshold_classification [OF f, of "Some [None, Some 50]" ?p]
      k [of "Some [None, Some 50]"]
    by (elim conjE) (erule allE [where x = "[]"], erule allE [where x = "[None, Some 50]"],
        erule allE [where x = 50], simp add: d)
  then have h: "fst (rsi_get_signal (rsi_reporting (Some [None, Some 50])) ?p ?s) = HOLD"
    by (simp add: d)
  have n: "fst (rsi_get_signal (rsi_reporting None) ?p ?s) = HOLD"
    using rsi_threshold_classification [OF f, of None ?p] k [of None]
    by (elim conjE) simp
  show ?thesis using b s h n by (intro conjI)
qed

subsection \<open>Start-up\<close>








subsection \<open>The daily reset\<close>







end
